theory Spec2Isabelle
  imports Main "HOL-Library.AList" "HOL-Library.Multiset"
begin

section \<open>Item registry (items.py)\<close>

text \<open>
  An \<open>Item\<close> object. The \<open>description\<close> attribute (a dedented display text,
  partly non-ASCII art) is display-only and is not part of the model; every other
  attribute of the class is a field here.
\<close>

record item =
  item_id :: int
  price :: int
  name :: string
  for_sale :: bool

text \<open>
  The module-level \<open>registry\<close> dict, as an association list in insertion order:
  \<open>len(registry)\<close> is its length, \<open>registry[k] = v\<close> is \<open>AList.update\<close> and
  \<open>registry.get(k)\<close> is \<open>map_of\<close>.
\<close>

type_synonym registry = "(int \<times> item) list"

text \<open>
  \<open>Item.__init__\<close>: the new object takes the id \<open>len(registry) + 1\<close> and is stored
  in the registry under that id. The registry is threaded through explicitly.
\<close>

definition Item :: "registry \<Rightarrow> int \<Rightarrow> string \<Rightarrow> bool \<Rightarrow> item \<times> registry" where
  "Item registry price' name' for_sale' =
     (let self = \<lparr>item_id = int (length registry) + 1, price = price',
                   item.name = name', for_sale = for_sale'\<rparr>
      in (self, AList.update (item_id self) self registry))"

text \<open>
  The loop \<open>for color in constants.COLORS_PLAIN: petals[color] = Item(...)\<close>.
  The state of the loop is the registry and the \<open>petals\<close> dict.
\<close>

definition petal_name :: "string \<Rightarrow> string" where
  "petal_name color = ''flower petal ['' @ color @ '']''"

fun make_petals :: "string list \<Rightarrow> registry \<times> (string \<times> item) list
    \<Rightarrow> registry \<times> (string \<times> item) list" where
  "make_petals [] (registry, petals) = (registry, petals)"
| "make_petals (color # colors) (registry, petals) =
     (let (it, registry') = Item registry 0 (petal_name color) False
      in make_petals colors (registry', AList.update color it petals))"

text \<open>
  The names bound by the module once it has been imported. \<open>constants.COLORS_PLAIN\<close>
  is defined outside the two source files and is a parameter.
\<close>

record items_module =
  registry :: registry
  paperclip :: item
  fertilizer :: item
  petals :: "(string \<times> item) list"
  coin :: item
  postcard :: item

definition load_items :: "string list \<Rightarrow> items_module" where
  "load_items COLORS_PLAIN =
     (let r0 = [];
          (paperclip', r1) = Item r0 0 ''paper clip'' False;
          (fertilizer', r2) = Item r1 75 ''EZ-Grow fertilizer'' True;
          (r3, petals') = make_petals COLORS_PLAIN (r2, []);
          (coin', r4) = Item r3 1 ''coin'' False;
          (postcard', r5) = Item r4 20 ''postcard'' True
      in \<lparr>registry = r5, paperclip = paperclip', fertilizer = fertilizer',
          petals = petals', coin = coin', postcard = postcard'\<rparr>)"

text \<open>A registry entry is well formed: the item is stored under its own id, at a non-negative price.\<close>

definition entry_ok :: "int \<times> item \<Rightarrow> bool" where
  "entry_ok e \<longleftrightarrow> item_id (snd e) = fst e \<and> 0 \<le> price (snd e)"

section \<open>Strings and formatting\<close>

text \<open>
  A Python \<open>str\<close> is modelled as a \<open>string\<close>, one \<open>char\<close> per code point, so the
  model covers the code points below 256. \<open>str.strip()\<close> removes the leading and
  trailing characters for which \<open>str.isspace\<close> holds, \<open>str.lower()\<close> maps the
  upper-case letters of that range to lower case.
\<close>

definition py_isspace :: "char \<Rightarrow> bool" where
  "py_isspace c \<longleftrightarrow> (of_char c :: nat) \<in> {9, 10, 11, 12, 13, 28, 29, 30, 31, 32, 133, 160}"

definition py_strip :: "string \<Rightarrow> string" where
  "py_strip s = rev (dropWhile py_isspace (rev (dropWhile py_isspace s)))"

definition py_lower_char :: "char \<Rightarrow> char" where
  "py_lower_char c =
     (let n = (of_char c :: nat)
      in if (65 \<le> n \<and> n \<le> 90) \<or> (192 \<le> n \<and> n \<le> 222 \<and> n \<noteq> 215)
         then char_of (n + 32) else c)"

definition py_lower :: "string \<Rightarrow> string" where
  "py_lower s = map py_lower_char s"

definition endswith :: "string \<Rightarrow> string \<Rightarrow> bool" where
  "endswith s suffix \<longleftrightarrow>
     length suffix \<le> length s \<and> drop (length s - length suffix) s = suffix"


text \<open>Decimal formatting of an integer, as an f-string does it.\<close>

fun digits10 :: "nat \<Rightarrow> string" where
  "digits10 n = (if n < 10 then [char_of (48 + n)]
                 else digits10 (n div 10) @ [char_of (48 + n mod 10)])"

definition str_int :: "int \<Rightarrow> string" where
  "str_int i = (if i < 0 then CHR ''-'' # digits10 (nat (- i)) else digits10 (nat i))"

text \<open>The format \<open>{serial_number:032X}\<close>: upper-case hexadecimal, zero-padded to 32 digits.\<close>

definition hex_digit :: "nat \<Rightarrow> char" where
  "hex_digit d = (if d < 10 then char_of (48 + d) else char_of (55 + d))"

fun digits16 :: "nat \<Rightarrow> string" where
  "digits16 n = (if n < 16 then [hex_digit n]
                 else digits16 (n div 16) @ [hex_digit (n mod 16)])"

definition format_032X :: "nat \<Rightarrow> string" where
  "format_032X n = replicate (32 - length (digits16 n)) CHR ''0'' @ digits16 n"

section \<open>Requests, responses and the state behind the views (views.py)\<close>

datatype status =
    INPUT | SENSITIVE_INPUT | SUCCESS | REDIRECT_TEMPORARY | BAD_REQUEST | NOT_FOUND
  | CLIENT_CERTIFICATE_REQUIRED | CERTIFICATE_NOT_AUTHORISED

type_synonym user_id = string

text \<open>
  The attributes of a \<open>Plant\<close> row that the views read or write. Times are
  microseconds since the epoch.
\<close>

record plant =
  user :: user_id
  name :: string
  stage :: nat
  dead :: bool
  score :: int
  watered_at :: int

record inbox_row =
  user_from :: user_id
  user_to :: user_id
  subject :: string
  body :: string
  is_seen :: bool

text \<open>
  A response body: nothing, the bytes of a file, or a rendered template. A template's
  constructor carries the keyword arguments given to \<open>render_template\<close> besides the
  request itself; the templates are not among the source files.
\<close>

datatype body =
    No_body
  | File_bytes string
  | Register_gmi string
  | Plant_harvest_gmi plant
  | Visit_gmi "plant list"
  | Mailbox_view_gmi inbox_row

text \<open>What a view gives back: a \<open>Response\<close>, or an exception it does not catch.\<close>

datatype response = Response (status: status) (meta: string) (body: body) | Raised string

text \<open>
  The request: path and query, the entries of \<open>request.environ\<close> that
  \<open>authenticate\<close> reads, and the \<open>user\<close> attribute that \<open>authenticate\<close> sets
  (a user is identified by its \<open>user_id\<close>). \<open>request.plant\<close> and
  \<open>request.session\<close> are that user's plant and session in the state below.
\<close>

record request =
  path :: string
  query :: string
  remote_user :: bool
  tls_client_authorised :: bool
  tls_client_serial_number :: nat
  tls_client_hash :: string
  user :: user_id

text \<open>The calls a view makes on the model layer, in the order it makes them.\<close>

datatype call =
    Refresh user_id
  | Save user_id
  | Water user_id "user_id option"
  | Pick_petal user_id "user_id option"
  | Harvest user_id
  | Remove_item user_id int int
  | Add_item user_id int int
  | Create_inbox user_id user_id string
  | Save_inbox int
  | Read_bytes string

text \<open>
  The state a view runs against: the certificate lookup behind \<open>User.login\<close>, the
  \<open>User\<close> rows (by \<open>user_id\<close>, with the username), each user's plant object and
  session dict, the \<open>ItemSlot\<close> quantities, the \<open>Inbox\<close> table keyed by its primary
  key, the rows \<open>Plant.all_active()\<close> selects, and the trace of model-layer calls.
\<close>

record world =
  login :: "string \<rightharpoonup> user_id"
  users :: "user_id \<rightharpoonup> string"
  plant_of :: "user_id \<Rightarrow> plant"
  session_of :: "user_id \<Rightarrow> (string \<rightharpoonup> string)"
  quantity :: "user_id \<Rightarrow> int \<Rightarrow> int"
  inbox :: "(int \<times> inbox_row) list"
  all_active :: "plant list"
  calls :: "call list"

text \<open>
  The methods and properties of \<open>Plant\<close> that the views call. models.py is not among
  the source files and the spec leaves their constants open, so they are parameters:
  \<open>refresh\<close> and \<open>harvest\<close> act on the plant, \<open>water\<close> returns its message and
  the plant, \<open>pick_petal\<close> returns its message, the plant and the item quantities.
\<close>

record models =
  Plant_refresh :: "plant \<Rightarrow> plant"
  Plant_stage_str :: "plant \<Rightarrow> string"
  Plant_water :: "plant \<Rightarrow> user_id option \<Rightarrow> string \<times> plant"
  Plant_pick_petal :: "plant \<Rightarrow> user_id option \<Rightarrow> (user_id \<Rightarrow> int \<Rightarrow> int)
      \<Rightarrow> string \<times> plant \<times> (user_id \<Rightarrow> int \<Rightarrow> int)"
  Plant_harvest :: "plant \<Rightarrow> plant"

definition call_refresh :: "models \<Rightarrow> user_id \<Rightarrow> world \<Rightarrow> world" where
  "call_refresh M u w =
     w\<lparr>plant_of := (plant_of w)(u := Plant_refresh M (plant_of w u)),
       calls := calls w @ [Refresh u]\<rparr>"

definition call_save :: "user_id \<Rightarrow> world \<Rightarrow> world" where
  "call_save u w = w\<lparr>calls := calls w @ [Save u]\<rparr>"

definition call_water :: "models \<Rightarrow> user_id \<Rightarrow> user_id option \<Rightarrow> world \<Rightarrow> string \<times> world" where
  "call_water M u actor w =
     (let (msg, p) = Plant_water M (plant_of w u) actor
      in (msg, w\<lparr>plant_of := (plant_of w)(u := p), calls := calls w @ [Water u actor]\<rparr>))"

definition call_pick_petal :: "models \<Rightarrow> user_id \<Rightarrow> user_id option \<Rightarrow> world \<Rightarrow> string \<times> world" where
  "call_pick_petal M u actor w =
     (let (msg, p, q) = Plant_pick_petal M (plant_of w u) actor (quantity w)
      in (msg, w\<lparr>plant_of := (plant_of w)(u := p), quantity := q,
                 calls := calls w @ [Pick_petal u actor]\<rparr>))"

definition call_harvest :: "models \<Rightarrow> user_id \<Rightarrow> world \<Rightarrow> world" where
  "call_harvest M u w =
     w\<lparr>plant_of := (plant_of w)(u := Plant_harvest M (plant_of w u)),
       calls := calls w @ [Harvest u]\<rparr>"

text \<open>\<open>request.session[key] = value\<close> and \<open>request.session.pop(key, None)\<close>.\<close>

definition session_set :: "user_id \<Rightarrow> string \<Rightarrow> string \<Rightarrow> world \<Rightarrow> world" where
  "session_set u key v w = w\<lparr>session_of := (session_of w)(u := (session_of w u)(key \<mapsto> v))\<rparr>"

definition session_pop :: "user_id \<Rightarrow> string \<Rightarrow> world \<Rightarrow> string option \<times> world" where
  "session_pop u key w =
     (session_of w u key, w\<lparr>session_of := (session_of w)(u := (session_of w u)(key := None))\<rparr>)"

text \<open>
  Modelled from the spec: \<open>User.get_item_quantity\<close>, \<open>User.add_item\<close> and
  \<open>User.remove_item\<close> of models.py, which is not among the source files. The spec
  (4.4): \<open>add_item\<close> increments the slot, creating it if absent; \<open>remove_item\<close>
  succeeds and decrements only if the current quantity is at least the quantity asked
  for, otherwise it is rejected with no partial deduction; \<open>get_quantity\<close> is 0 for
  an absent slot.
\<close>

definition get_item_quantity :: "user_id \<Rightarrow> item \<Rightarrow> world \<Rightarrow> int" where
  "get_item_quantity u it w = quantity w u (item_id it)"

definition add_item :: "user_id \<Rightarrow> item \<Rightarrow> int \<Rightarrow> world \<Rightarrow> world" where
  "add_item u it qty w =
     w\<lparr>quantity := (quantity w)(u := (quantity w u)(item_id it := quantity w u (item_id it) + qty)),
       calls := calls w @ [Add_item u (item_id it) qty]\<rparr>"

definition remove_item :: "user_id \<Rightarrow> item \<Rightarrow> int \<Rightarrow> world \<Rightarrow> bool \<times> world" where
  "remove_item u it qty w =
     (if qty \<le> quantity w u (item_id it)
      then (True,
            w\<lparr>quantity := (quantity w)(u := (quantity w u)(item_id it := quantity w u (item_id it) - qty)),
              calls := calls w @ [Remove_item u (item_id it) qty]\<rparr>)
      else (False, w\<lparr>calls := calls w @ [Remove_item u (item_id it) qty]\<rparr>))"

subsection \<open>The authenticate wrapper\<close>

text \<open>
  \<open>User.login(fingerprint)\<close> is the lookup \<open>login\<close> of the state. With a known
  certificate the wrapper refreshes the user's own plant, runs the view and saves the plant.
\<close>

definition authenticate ::
    "models \<Rightarrow> (request \<Rightarrow> world \<Rightarrow> response \<times> world) \<Rightarrow> request \<Rightarrow> world \<Rightarrow> response \<times> world" where
  "authenticate M func request w =
     (if \<not> remote_user request then
        (if path request \<noteq> ''/app''
         then (Response REDIRECT_TEMPORARY ''/app'' No_body, w)
         else (Response CLIENT_CERTIFICATE_REQUIRED
                 ''Attach your client certificate to continue.'' No_body, w))
      else
        (let fingerprint = (if tls_client_authorised request
                            then format_032X (tls_client_serial_number request)
                            else tls_client_hash request)
         in case login w fingerprint of
              None \<Rightarrow> (Response SUCCESS ''text/gemini'' (Register_gmi fingerprint), w)
            | Some cert_user \<Rightarrow>
                (let request' = request\<lparr>request.user := cert_user\<rparr>;
                     w1 = call_refresh M (request.user request') w;
                     (response, w2) = func request' w1;
                     w3 = call_save (request.user request') w2
                 in (response, w3))))"

subsection \<open>The store\<close>

text \<open>
  \<open>store_purchase\<close>; \<open>item_id\<close> is \<open>int(item_id)\<close> of the route's \<open>[0-9]+\<close>
  group, \<open>items\<close> the imported items module.
\<close>

definition store_purchase :: "items_module \<Rightarrow> nat \<Rightarrow> request \<Rightarrow> world \<Rightarrow> response \<times> world" where
  "store_purchase items item_id' request w =
     (case map_of (registry items) (int item_id') of
        None \<Rightarrow> (Response BAD_REQUEST ''Item was not found'' No_body, w)
      | Some it \<Rightarrow>
          if \<not> for_sale it then (Response BAD_REQUEST ''Item is not for sale'' No_body, w)
          else if query request = [] then
            (Response INPUT (''Confirm: purchase 1 '' @ item.name it @ '' for ''
                @ str_int (price it) @ '' coins. [Y]es/[N]o.'') No_body, w)
          else if py_lower (py_strip (query request)) \<in> set [''y'', ''yes''] then
            (case remove_item (request.user request) (coin items) (price it) w of
               (True, w1) \<Rightarrow>
                 (Response REDIRECT_TEMPORARY ''/app/store'' No_body,
                  add_item (request.user request) it 1 w1)
             | (False, w1) \<Rightarrow> (Response BAD_REQUEST ''Insufficient funds'' No_body, w1))
          else (Response REDIRECT_TEMPORARY ''/app/store'' No_body, w))"

subsection \<open>The user's own plant\<close>

definition search :: "models \<Rightarrow> request \<Rightarrow> world \<Rightarrow> response \<times> world" where
  "search M request w =
     (let u = request.user request in
      if dead (plant_of w u) \<or> stage (plant_of w u) \<noteq> 4
      then (Response BAD_REQUEST ''You shouldn't be here!'' No_body, w)
      else
        (let (alert, w1) = call_pick_petal M u None w;
             w2 = session_set u ''alert'' alert w1
         in (Response REDIRECT_TEMPORARY ''/app/plant'' No_body, w2)))"

text \<open>
  \<open>harvest\<close> serves the routes \<open>/app/plant/harvest\<close> and
  \<open>/app/plant/harvest/confirm\<close>.
\<close>

definition harvest :: "models \<Rightarrow> request \<Rightarrow> world \<Rightarrow> response \<times> world" where
  "harvest M request w =
     (let u = request.user request; p = plant_of w u in
      if \<not> (dead p \<or> stage p = 5)
      then (Response BAD_REQUEST ''You shouldn't be here!'' No_body, w)
      else if endswith (path request) ''/confirm'' then
        (if py_strip (query request) = ''Goodbye '' @ plant.name p
         then (Response REDIRECT_TEMPORARY ''/app/epilog/1'' No_body, call_harvest M u w)
         else if query request \<noteq> []
         then (Response REDIRECT_TEMPORARY ''/app/plant/harvest'' No_body, w)
         else (Response INPUT (''Type '' @ [CHR 0x22] @ ''Goodbye '' @ plant.name p @ [CHR 0x22]
                 @ '' to send off your plant.'') No_body, w))
      else (Response SUCCESS ''text/gemini'' (Plant_harvest_gmi p), w))"

definition name :: "request \<Rightarrow> world \<Rightarrow> response \<times> world" where
  "name request w =
     (let u = request.user request in
      if query request = []
      then (Response INPUT ''Enter a new nickname for your plant:'' No_body, w)
      else
        (let w1 = w\<lparr>plant_of := (plant_of w)(u := (plant_of w u)\<lparr>plant.name := take 40 (query request)\<rparr>)\<rparr>;
             msg = ''Your plant shall henceforth be known as '' @ [CHR 0x22]
                   @ plant.name (plant_of w1 u) @ [CHR 0x22] @ ''.'';
             w2 = session_set u ''alert'' msg w1
         in (Response REDIRECT_TEMPORARY ''/app/plant'' No_body, w2)))"

subsection \<open>Visiting another user's plant\<close>

text \<open>
  \<open>User.get_or_none(user_id=user_id)\<close> is the lookup \<open>users w user_id\<close>;
  \<open>request.user == user\<close> compares the two users' ids.
\<close>

definition visit_plant_water :: "models \<Rightarrow> user_id \<Rightarrow> request \<Rightarrow> world \<Rightarrow> response \<times> world" where
  "visit_plant_water M user_id' request w =
     (case users w user_id' of
        None \<Rightarrow> (Response NOT_FOUND ''User not found'' No_body, w)
      | Some username \<Rightarrow>
          if request.user request = user_id'
          then (Response REDIRECT_TEMPORARY ''/app/plant'' No_body, w)
          else
            (let w1 = call_refresh M user_id' w;
                 (alert, w2) = call_water M user_id' (Some (request.user request)) w1;
                 w3 = session_set (request.user request) ''alert'' alert w2;
                 w4 = call_save user_id' w3
             in (Response REDIRECT_TEMPORARY (''/app/visit/'' @ user_id') No_body, w4)))"

definition visit_plant_search :: "models \<Rightarrow> user_id \<Rightarrow> request \<Rightarrow> world \<Rightarrow> response \<times> world" where
  "visit_plant_search M user_id' request w =
     (case users w user_id' of
        None \<Rightarrow> (Response NOT_FOUND ''User not found'' No_body, w)
      | Some username \<Rightarrow>
          if request.user request = user_id'
          then (Response REDIRECT_TEMPORARY ''/app/plant'' No_body, w)
          else if dead (plant_of w user_id')
                  \<or> Plant_stage_str M (plant_of w user_id') \<noteq> ''flowering''
          then (Response BAD_REQUEST ''You shouldn't be here!'' No_body, w)
          else
            (let w1 = call_refresh M user_id' w;
                 (alert, w2) = call_pick_petal M user_id' (Some (request.user request)) w1;
                 w3 = session_set (request.user request) ''alert'' alert w2;
                 w4 = call_save user_id' w3
             in (Response REDIRECT_TEMPORARY (''/app/visit/'' @ user_id') No_body, w4)))"

definition visit_plant_postcard_subject :: "user_id \<Rightarrow> request \<Rightarrow> world \<Rightarrow> response \<times> world" where
  "visit_plant_postcard_subject user_id' request w =
     (case users w user_id' of
        None \<Rightarrow> (Response NOT_FOUND ''User not found'' No_body, w)
      | Some username \<Rightarrow>
          if query request = []
          then (Response INPUT ''Enter the message subject (max 128 chars):'' No_body, w)
          else if length (query request) > 128
          then (Response BAD_REQUEST ''Subject exceeds maximum length'' No_body, w)
          else (Response REDIRECT_TEMPORARY (''/app/visit/'' @ user_id' @ ''/postcard'') No_body,
                session_set (request.user request) ''postcard_subject'' (query request) w))"

text \<open>
  \<open>Inbox.create(user_from, user_to, subject, body)\<close>: a new row under a fresh primary
  key (one more than the largest key in the table), not yet seen.
\<close>

definition Inbox_create :: "user_id \<Rightarrow> user_id \<Rightarrow> string \<Rightarrow> string \<Rightarrow> world \<Rightarrow> world" where
  "Inbox_create user_from' user_to' subject' body' w =
     w\<lparr>inbox := inbox w @
           [(fold max (map fst (inbox w)) 0 + 1,
             \<lparr>user_from = user_from', user_to = user_to', subject = subject',
              inbox_row.body = body', is_seen = False\<rparr>)],
       calls := calls w @ [Create_inbox user_from' user_to' subject']\<rparr>"

text \<open>
  \<open>visit_plant_postcard_send\<close>. \<open>session.get\<close> is falsy for a missing and for an
  empty subject; \<open>session.pop\<close> without a default raises \<open>KeyError\<close> on a missing key.
\<close>

definition visit_plant_postcard_send ::
    "items_module \<Rightarrow> user_id \<Rightarrow> request \<Rightarrow> world \<Rightarrow> response \<times> world" where
  "visit_plant_postcard_send items user_id' request w =
     (let u = request.user request in
      case users w user_id' of
        None \<Rightarrow> (Response NOT_FOUND ''User not found'' No_body, w)
      | Some username \<Rightarrow>
          if session_of w u ''postcard_subject'' \<in> {None, Some []}
          then (Response BAD_REQUEST ''Postcard subject cannot be blank.'' No_body, w)
          else
            (case remove_item u (postcard items) 1 w of
               (False, w1) \<Rightarrow>
                 (Response BAD_REQUEST ''You do not have any postcards in your inventory.'' No_body, w1)
             | (True, w1) \<Rightarrow>
                 (case session_pop u ''postcard_subject'' w1 of
                    (None, w2) \<Rightarrow> (Raised ''KeyError'', w2)
                  | (Some subject', w2) \<Rightarrow>
                      (let body' = ''Hello world!'';
                           w3 = Inbox_create u user_id' subject' body' w2;
                           w4 = session_set u ''alert''
                                  (''Your postcard to '' @ username @ '' has been mailed!'') w3
                       in (Response REDIRECT_TEMPORARY (''/app/visit/'' @ user_id') No_body, w4)))))"

subsection \<open>The list of plants to visit\<close>

text \<open>
  Times are microseconds, so \<open>timedelta(days=n)\<close> is \<open>n\<close> times 86400000000.
  \<open>order_by(Plant.score.desc())\<close> sorts by descending score; rows of equal score keep
  the order in which \<open>Plant.all_active()\<close> gives them. \<open>now\<close> is \<open>datetime.now()\<close>.
\<close>

definition timedelta_days :: "int \<Rightarrow> int" where
  "timedelta_days n = n * 86400000000"

definition order_by_score_desc :: "plant list \<Rightarrow> plant list" where
  "order_by_score_desc ps = sort_key (\<lambda>p. - score p) ps"

definition visit :: "int \<Rightarrow> request \<Rightarrow> world \<Rightarrow> response \<times> world" where
  "visit now request w =
     (let plants = order_by_score_desc
            (filter (\<lambda>p. score p > 0 \<and> watered_at p \<ge> now - timedelta_days 8) (all_active w))
      in (Response SUCCESS ''text/gemini'' (Visit_gmi plants), w))"

subsection \<open>The mailbox\<close>

text \<open>
  \<open>Inbox.get_or_none(id=message_id, user_to=request.user)\<close>: the row with that primary
  key if it is addressed to that user. \<open>message.save()\<close> writes the row back under its
  key. \<open>message_id\<close> is the number read from the route's \<open>[0-9]+\<close> group.
\<close>

definition Inbox_get_or_none :: "int \<Rightarrow> user_id \<Rightarrow> world \<Rightarrow> inbox_row option" where
  "Inbox_get_or_none id' user_to' w =
     (case map_of (inbox w) id' of
        None \<Rightarrow> None
      | Some message \<Rightarrow> if user_to message = user_to' then Some message else None)"

definition Inbox_save :: "int \<Rightarrow> inbox_row \<Rightarrow> world \<Rightarrow> world" where
  "Inbox_save id' message w =
     w\<lparr>inbox := AList.update id' message (inbox w), calls := calls w @ [Save_inbox id']\<rparr>"

definition mailbox_view :: "nat \<Rightarrow> request \<Rightarrow> world \<Rightarrow> response \<times> world" where
  "mailbox_view message_id request w =
     (case Inbox_get_or_none (int message_id) (request.user request) w of
        None \<Rightarrow> (Response BAD_REQUEST ''You shouldn't be here!'' No_body, w)
      | Some message \<Rightarrow>
          (let message' = message\<lparr>is_seen := True\<rparr>;
               w1 = Inbox_save (int message_id) message' w
           in (Response SUCCESS ''text/gemini'' (Mailbox_view_gmi message'), w1)))"

section \<open>Static files\<close>
















section \<open>Example values\<close>

text \<open>A blank plant, state and request, from which concrete instances are built.\<close>

definition blank_plant :: plant where
  "blank_plant = \<lparr>plant.user = [], plant.name = [], stage = 0, dead = False, score = 0,
                   watered_at = 0\<rparr>"

definition blank_world :: world where
  "blank_world = \<lparr>login = Map.empty, users = Map.empty, plant_of = (\<lambda>_. blank_plant),
                   session_of = (\<lambda>_. Map.empty), quantity = (\<lambda>_ _. 0), inbox = [],
                   all_active = [], calls = []\<rparr>"

definition blank_request :: request where
  "blank_request = \<lparr>path = [], query = [], remote_user = True, tls_client_authorised = False,
                     tls_client_serial_number = 0, tls_client_hash = [], request.user = []\<rparr>"

text \<open>
  A model layer for concrete instances: so much time has passed that \<open>refresh\<close> finds
  the plant dead, stage 4 is the flowering stage, \<open>pick_petal\<close> gives the petal with
  item id 3 to the actor (or to the owner), \<open>harvest\<close> resets the plant.
\<close>

definition drought_models :: models where
  "drought_models =
     \<lparr>Plant_refresh = (\<lambda>p. p\<lparr>dead := True\<rparr>),
      Plant_stage_str = (\<lambda>p. if stage p = 4 then ''flowering'' else ''other''),
      Plant_water = (\<lambda>p actor. (''watered'', p)),
      Plant_pick_petal = (\<lambda>p actor q.
         (let a = (case actor of None \<Rightarrow> plant.user p | Some a' \<Rightarrow> a')
          in (''petal'', p, q(a := (q a)(3 := q a 3 + 1))))),
      Plant_harvest = (\<lambda>p. p\<lparr>stage := 0, dead := False\<rparr>)\<rparr>"

text \<open>
  A state with two users: alice (\<open>u1\<close>, certificate \<open>cert1\<close>) whose plant is at stage 3
  and bob (\<open>u2\<close>) whose plant is stored alive at stage 4; and a state whose plants are
  all a dead plant named fern.
\<close>

definition garden :: world where
  "garden = blank_world
     \<lparr>login := [''cert1'' \<mapsto> ''u1''],
      users := [''u1'' \<mapsto> ''alice'', ''u2'' \<mapsto> ''bob''],
      plant_of := (\<lambda>_. blank_plant)(''u2'' := blank_plant\<lparr>plant.user := ''u2'', stage := 4\<rparr>,
                                        ''u1'' := blank_plant\<lparr>plant.user := ''u1'', stage := 3\<rparr>)\<rparr>"

definition fern_world :: world where
  "fern_world = blank_world\<lparr>plant_of := (\<lambda>_. blank_plant\<lparr>plant.name := ''fern'', dead := True\<rparr>)\<rparr>"

text \<open>The same two users with one message each in their inboxes.\<close>

definition mail_world :: world where
  "mail_world = garden
     \<lparr>inbox := [(1, \<lparr>user_from = ''u2'', user_to = ''u1'', subject = ''hi'',
                     inbox_row.body = ''Hello world!'', is_seen = False\<rparr>),
                (2, \<lparr>user_from = ''u1'', user_to = ''u2'', subject = ''re'',
                     inbox_row.body = ''Hello world!'', is_seen = False\<rparr>)]\<rparr>"

text \<open>Alice has drafted the subject hello and holds one postcard (item id 5).\<close>

definition postcard_world :: world where
  "postcard_world = garden
     \<lparr>session_of := (\<lambda>_. Map.empty)(''u1'' := [''postcard_subject'' \<mapsto> ''hello'']),
      quantity := (\<lambda>_ _. 0)(''u1'' := (\<lambda>_. 0)(5 := 1))\<rparr>"

text \<open>
  Four active plants at the time 700000000000, eight days after 8800000000: alice's,
  watered exactly eight days ago; bob's, watered just now; one with score 0; and one
  watered a microsecond more than eight days ago.
\<close>

definition visit_world :: world where
  "visit_world = garden
     \<lparr>all_active :=
        [blank_plant\<lparr>plant.user := ''u1'', score := 5, watered_at := 8800000000\<rparr>,
         blank_plant\<lparr>plant.user := ''u2'', score := 9, watered_at := 700000000000\<rparr>,
         blank_plant\<lparr>plant.user := ''u3'', score := 0, watered_at := 700000000000\<rparr>,
         blank_plant\<lparr>plant.user := ''u4'', score := 7, watered_at := 8799999999\<rparr>]\<rparr>"


section \<open>Properties of the item registry\<close>

lemma update_fresh: "k \<notin> fst ` set r \<Longrightarrow> AList.update k v r = r @ [(k, v)]"
  by (induction r) auto

lemma map_of_append_fresh: "k \<notin> fst ` set r \<Longrightarrow> map_of (r @ r') k = map_of r' k"
  by (induction r) auto

lemma Item_append:
  assumes "map fst r = [1..int (length r)]"
  shows "Item r p nm fs =
    (\<lparr>item_id = int (length r) + 1, price = p, item.name = nm, for_sale = fs\<rparr>,
     r @ [(int (length r) + 1,
           \<lparr>item_id = int (length r) + 1, price = p, item.name = nm, for_sale = fs\<rparr>)])"
proof -
  have "fst ` set r = set (map fst r)" by simp
  also have "\<dots> = {1..int (length r)}" using assms by simp
  finally have "int (length r) + 1 \<notin> fst ` set r" by simp
  then show ?thesis by (simp add: Item_def Let_def update_fresh)
qed

lemma make_petals_registry:
  assumes "map fst r = [1..int (length r)]"
  shows "\<exists>es. fst (make_petals cs (r, ps)) = r @ es
           \<and> map fst (r @ es) = [1..int (length (r @ es))]
           \<and> map (item.name \<circ> snd) es = map petal_name cs
           \<and> list_all entry_ok es
           \<and> list_all (\<lambda>e. \<not> for_sale (snd e)) es"
  using assms
proof (induction cs arbitrary: r ps)
  case Nil
  then show ?case by simp
next
  case (Cons c cs)
  let ?it = "\<lparr>item_id = int (length r) + 1, price = 0, item.name = petal_name c, for_sale = False\<rparr>"
  let ?r = "r @ [(int (length r) + 1, ?it)]"
  have ok: "map fst ?r = [1..int (length ?r)]"
    using Cons.prems by (simp add: upto_rec2)
  have step: "fst (make_petals (c # cs) (r, ps)) = fst (make_petals cs (?r, AList.update c ?it ps))"
    using Item_append[OF Cons.prems] by simp
  from Cons.IH[OF ok, of "AList.update c ?it ps"] obtain es where
    es: "fst (make_petals cs (?r, AList.update c ?it ps)) = ?r @ es"
        "map fst (?r @ es) = [1..int (length (?r @ es))]"
        "map (item.name \<circ> snd) es = map petal_name cs"
        "list_all entry_ok es"
        "list_all (\<lambda>e. \<not> for_sale (snd e)) es"
    by blast
  let ?es = "(int (length r) + 1, ?it) # es"
  have "fst (make_petals (c # cs) (r, ps)) = r @ ?es" using step es(1) by simp
  moreover have "map fst (r @ ?es) = [1..int (length (r @ ?es))]" using es(2) by simp
  moreover have "map (item.name \<circ> snd) ?es = map petal_name (c # cs)"
    using es(3) by simp
  moreover have "list_all entry_ok ?es" using es(4) by (simp add: entry_ok_def)
  moreover have "list_all (\<lambda>e. \<not> for_sale (snd e)) ?es" using es(5) by simp
  ultimately show ?case by blast
qed

text \<open>
  The module after import, for any colour list: the registry is the paper clip, the
  fertilizer, one petal entry per colour, the coin and the postcard, under the ids
  \<open>1..n\<close>.
\<close>

lemma load_items_shape:
  fixes COLORS_PLAIN :: "string list"
  defines "n \<equiv> 4 + int (length COLORS_PLAIN)"
  shows "\<exists>es ps.
      map fst es = [3..n - 2]
    \<and> map (item.name \<circ> snd) es = map petal_name COLORS_PLAIN
    \<and> list_all entry_ok es
    \<and> list_all (\<lambda>e. \<not> for_sale (snd e)) es
    \<and> load_items COLORS_PLAIN =
        \<lparr>registry =
           [(1, \<lparr>item_id = 1, price = 0, item.name = ''paper clip'', for_sale = False\<rparr>),
            (2, \<lparr>item_id = 2, price = 75, item.name = ''EZ-Grow fertilizer'', for_sale = True\<rparr>)]
           @ es @
           [(n - 1, \<lparr>item_id = n - 1, price = 1, item.name = ''coin'', for_sale = False\<rparr>),
            (n, \<lparr>item_id = n, price = 20, item.name = ''postcard'', for_sale = True\<rparr>)],
         paperclip = \<lparr>item_id = 1, price = 0, item.name = ''paper clip'', for_sale = False\<rparr>,
         fertilizer = \<lparr>item_id = 2, price = 75, item.name = ''EZ-Grow fertilizer'', for_sale = True\<rparr>,
         petals = ps,
         coin = \<lparr>item_id = n - 1, price = 1, item.name = ''coin'', for_sale = False\<rparr>,
         postcard = \<lparr>item_id = n, price = 20, item.name = ''postcard'', for_sale = True\<rparr>\<rparr>"
proof -
  let ?pc = "\<lparr>item_id = 1, price = 0, item.name = ''paper clip'', for_sale = False\<rparr>"
  let ?fe = "\<lparr>item_id = 2, price = 75, item.name = ''EZ-Grow fertilizer'', for_sale = True\<rparr>"
  let ?r2 = "[(1, ?pc), (2, ?fe)]"
  have r1: "Item [] 0 ''paper clip'' False = (?pc, [(1, ?pc)])"
    by (simp add: Item_def Let_def)
  have r2: "Item [(1, ?pc)] 75 ''EZ-Grow fertilizer'' True = (?fe, ?r2)"
    by (simp add: Item_def Let_def)
  have ok2: "map fst ?r2 = [1..int (length ?r2)]"
    by (simp add: upto_rec1)
  from make_petals_registry[OF ok2, of COLORS_PLAIN "[]"] obtain es where
    es: "fst (make_petals COLORS_PLAIN (?r2, [])) = ?r2 @ es"
        "map fst (?r2 @ es) = [1..int (length (?r2 @ es))]"
        "map (item.name \<circ> snd) es = map petal_name COLORS_PLAIN"
        "list_all entry_ok es"
        "list_all (\<lambda>e. \<not> for_sale (snd e)) es"
    by blast
  have len: "length es = length COLORS_PLAIN"
    using es(3) by (metis length_map)
  let ?r3 = "?r2 @ es"
  let ?co = "\<lparr>item_id = n - 1, price = 1, item.name = ''coin'', for_sale = False\<rparr>"
  let ?po = "\<lparr>item_id = n, price = 20, item.name = ''postcard'', for_sale = True\<rparr>"
  let ?r4 = "?r3 @ [(n - 1, ?co)]"
  let ?r5 = "?r4 @ [(n, ?po)]"
  have r4: "Item ?r3 1 ''coin'' False = (?co, ?r4)"
    using Item_append[OF es(2), of 1 "''coin''" False] len by (simp add: n_def)
  have ok4: "map fst ?r4 = [1..int (length ?r4)]"
    using es(2) len by (simp add: upto_rec2 n_def)
  have r5: "Item ?r4 20 ''postcard'' True = (?po, ?r5)"
    using Item_append[OF ok4, of 20 "''postcard''" True] len by (simp add: n_def)
  obtain ps where mp: "make_petals COLORS_PLAIN (?r2, []) = (?r3, ps)"
    using es(1) by (metis prod.collapse)
  have m: "load_items COLORS_PLAIN =
      \<lparr>registry = ?r5, paperclip = ?pc, fertilizer = ?fe, petals = ps, coin = ?co, postcard = ?po\<rparr>"
    unfolding load_items_def Let_def r1 prod.case r2 mp using r4 r5 by simp
  have "1 # 2 # map fst es = [1..2 + int (length es)]" using es(2) by simp
  then have keys: "map fst es = [3..n - 2]"
    using len by (simp add: upto_rec1[of 1] upto_rec1[of 2] n_def)
  from keys es(3) es(4) es(5) m show ?thesis by auto
qed

text \<open>The module for the single colour red.\<close>

lemma load_items_red:
  "load_items [''red''] =
     \<lparr>registry =
        [(1, \<lparr>item_id = 1, price = 0, item.name = ''paper clip'', for_sale = False\<rparr>),
         (2, \<lparr>item_id = 2, price = 75, item.name = ''EZ-Grow fertilizer'', for_sale = True\<rparr>),
         (3, \<lparr>item_id = 3, price = 0, item.name = ''flower petal [red]'', for_sale = False\<rparr>),
         (4, \<lparr>item_id = 4, price = 1, item.name = ''coin'', for_sale = False\<rparr>),
         (5, \<lparr>item_id = 5, price = 20, item.name = ''postcard'', for_sale = True\<rparr>)],
      paperclip = \<lparr>item_id = 1, price = 0, item.name = ''paper clip'', for_sale = False\<rparr>,
      fertilizer = \<lparr>item_id = 2, price = 75, item.name = ''EZ-Grow fertilizer'', for_sale = True\<rparr>,
      petals = [(''red'', \<lparr>item_id = 3, price = 0, item.name = ''flower petal [red]'', for_sale = False\<rparr>)],
      coin = \<lparr>item_id = 4, price = 1, item.name = ''coin'', for_sale = False\<rparr>,
      postcard = \<lparr>item_id = 5, price = 20, item.name = ''postcard'', for_sale = True\<rparr>\<rparr>"
  by (simp add: load_items_def Item_def Let_def petal_name_def)

text \<open>
  Claim C8. Constructing an item gives it the id \<open>len(registry) + 1\<close> and stores it
  under that id; on a registry whose keys are \<open>1..n\<close> the insertion appends and
  overwrites nothing. After the module has constructed its items (for any colour list),
  the registry's keys are \<open>1..n\<close> in construction order, every entry holds the item
  with that id at a non-negative price, and the coin has price 1.
\<close>

theorem item_registration:
  "(\<forall>r p nm fs. item_id (fst (Item r p nm fs)) = int (length r) + 1
       \<and> map_of (snd (Item r p nm fs)) (int (length r) + 1) = Some (fst (Item r p nm fs))
       \<and> (map fst r = [1..int (length r)] \<longrightarrow>
            snd (Item r p nm fs) = r @ [(int (length r) + 1, fst (Item r p nm fs))]))
   \<and> (let m = load_items COLORS_PLAIN; n = 4 + int (length COLORS_PLAIN) in
        map fst (registry m) = [1..n]
      \<and> map (item.name \<circ> snd) (registry m) =
          [''paper clip'', ''EZ-Grow fertilizer''] @ map petal_name COLORS_PLAIN @ [''coin'', ''postcard'']
      \<and> list_all entry_ok (registry m)
      \<and> map_of (registry m) 1 = Some (paperclip m)
      \<and> map_of (registry m) 2 = Some (fertilizer m)
      \<and> map_of (registry m) (n - 1) = Some (coin m)
      \<and> map_of (registry m) n = Some (postcard m)
      \<and> price (coin m) = 1)"
proof (intro conjI allI)
  fix r p nm fs
  show "item_id (fst (Item r p nm fs)) = int (length r) + 1"
    by (simp add: Item_def Let_def)
  show "map_of (snd (Item r p nm fs)) (int (length r) + 1) = Some (fst (Item r p nm fs))"
    by (simp add: Item_def Let_def update_conv')
  show "map fst r = [1..int (length r)] \<longrightarrow>
        snd (Item r p nm fs) = r @ [(int (length r) + 1, fst (Item r p nm fs))]"
    by (simp add: Item_append)
next
  let ?n = "4 + int (length COLORS_PLAIN)"
  let ?pc = "\<lparr>item_id = 1, price = 0, item.name = ''paper clip'', for_sale = False\<rparr>"
  let ?fe = "\<lparr>item_id = 2, price = 75, item.name = ''EZ-Grow fertilizer'', for_sale = True\<rparr>"
  let ?co = "\<lparr>item_id = ?n - 1, price = 1, item.name = ''coin'', for_sale = False\<rparr>"
  let ?po = "\<lparr>item_id = ?n, price = 20, item.name = ''postcard'', for_sale = True\<rparr>"
  from load_items_shape[of COLORS_PLAIN] obtain es ps where
    keys: "map fst es = [3..?n - 2]"
    and names: "map (item.name \<circ> snd) es = map petal_name COLORS_PLAIN"
    and ok: "list_all entry_ok es"
    and m: "load_items COLORS_PLAIN =
      \<lparr>registry = [(1, ?pc), (2, ?fe)] @ es @ [(?n - 1, ?co), (?n, ?po)],
       paperclip = ?pc, fertilizer = ?fe, petals = ps, coin = ?co, postcard = ?po\<rparr>"
    by blast
  let ?r3 = "[(1, ?pc), (2, ?fe)] @ es"
  let ?r5 = "[(1, ?pc), (2, ?fe)] @ es @ [(?n - 1, ?co), (?n, ?po)]"
  have "set (map fst es) = {3..?n - 2}" unfolding keys by simp
  then have kes: "fst ` set es = {3..?n - 2}" by simp
  have nk3: "?n - 1 \<notin> fst ` set ?r3" using kes by simp
  have nk4: "?n \<notin> fst ` set (?r3 @ [(?n - 1, ?co)])" using kes by simp
  have "map_of (?r3 @ [(?n - 1, ?co), (?n, ?po)]) (?n - 1) = map_of [(?n - 1, ?co), (?n, ?po)] (?n - 1)"
    by (rule map_of_append_fresh[OF nk3])
  then have c: "map_of ?r5 (?n - 1) = Some ?co" by simp
  have "map_of ((?r3 @ [(?n - 1, ?co)]) @ [(?n, ?po)]) ?n = map_of [(?n, ?po)] ?n"
    by (rule map_of_append_fresh[OF nk4])
  then have p: "map_of ?r5 ?n = Some ?po" by simp
  have k5: "map fst ?r5 = [1..?n]"
  proof -
    have "[1..?n] = 1 # 2 # [3..?n]" by (simp add: upto_rec1[of 1] upto_rec1[of 2])
    also have "[3..?n] = [3..?n - 2] @ [?n - 1, ?n]"
      by (simp add: upto_rec2[of 3 "?n"] upto_rec2[of 3 "3 + int (length COLORS_PLAIN)"])
    finally show ?thesis using keys by simp
  qed
  show "let m = load_items COLORS_PLAIN; n = 4 + int (length COLORS_PLAIN) in
        map fst (registry m) = [1..n]
      \<and> map (item.name \<circ> snd) (registry m) =
          [''paper clip'', ''EZ-Grow fertilizer''] @ map petal_name COLORS_PLAIN @ [''coin'', ''postcard'']
      \<and> list_all entry_ok (registry m)
      \<and> map_of (registry m) 1 = Some (paperclip m)
      \<and> map_of (registry m) 2 = Some (fertilizer m)
      \<and> map_of (registry m) (n - 1) = Some (coin m)
      \<and> map_of (registry m) n = Some (postcard m)
      \<and> price (coin m) = 1"
    unfolding Let_def m
    apply (simp only: items_module.simps item.simps)
    apply (intro conjI)
    subgoal using k5 by simp
    subgoal using names by simp
    subgoal using ok by (simp add: entry_ok_def)
    subgoal by simp
    subgoal by simp
    subgoal using c by simp
    subgoal using p by simp
    subgoal by simp
    done
qed

theorem item_registration_witness:
  "map fst ([]::registry) = [1..int (length ([]::registry))]
   \<and> snd (Item [] 0 ''paper clip'' False) = [(1, fst (Item [] 0 ''paper clip'' False))]
   \<and> map fst (registry (load_items [''red'', ''orange''])) = [1, 2, 3, 4, 5, 6]
   \<and> list_all entry_ok (registry (load_items [''red'', ''orange'']))
   \<and> price (coin (load_items [''red'', ''orange''])) = 1"
proof -
  note reg = item_registration[of "[''red'', ''orange'']"]
  have h: "map fst ([]::registry) = [1..int (length ([]::registry))]" by simp
  from reg have "map fst ([]::registry) = [1..int (length ([]::registry))] \<longrightarrow>
      snd (Item [] 0 ''paper clip'' False)
        = [] @ [(int (length ([]::registry)) + 1, fst (Item [] 0 ''paper clip'' False))]"
    by blast
  with h have a: "snd (Item [] 0 ''paper clip'' False) = [(1, fst (Item [] 0 ''paper clip'' False))]"
    by simp
  from reg have b: "map fst (registry (load_items [''red'', ''orange''])) = [1, 2, 3, 4, 5, 6]"
    and c: "list_all entry_ok (registry (load_items [''red'', ''orange'']))"
    and d: "price (coin (load_items [''red'', ''orange''])) = 1"
    by (simp_all add: Let_def upto_rec1)
  from h a b c d show ?thesis by blast
qed

section \<open>The store\<close>

lemma for_sale_not_coin:
  assumes "map_of (registry (load_items COLORS_PLAIN)) k = Some it" and "for_sale it"
  shows "item_id it \<noteq> item_id (coin (load_items COLORS_PLAIN))"
proof -
  let ?n = "4 + int (length COLORS_PLAIN)"
  let ?pc = "\<lparr>item_id = 1, price = 0, item.name = ''paper clip'', for_sale = False\<rparr>"
  let ?fe = "\<lparr>item_id = 2, price = 75, item.name = ''EZ-Grow fertilizer'', for_sale = True\<rparr>"
  let ?co = "\<lparr>item_id = ?n - 1, price = 1, item.name = ''coin'', for_sale = False\<rparr>"
  let ?po = "\<lparr>item_id = ?n, price = 20, item.name = ''postcard'', for_sale = True\<rparr>"
  from load_items_shape[of COLORS_PLAIN] obtain es ps where
    nfs: "list_all (\<lambda>e. \<not> for_sale (snd e)) es"
    and m: "load_items COLORS_PLAIN =
      \<lparr>registry = [(1, ?pc), (2, ?fe)] @ es @ [(?n - 1, ?co), (?n, ?po)],
       paperclip = ?pc, fertilizer = ?fe, petals = ps, coin = ?co, postcard = ?po\<rparr>"
    by blast
  have reg: "registry (load_items COLORS_PLAIN) = [(1, ?pc), (2, ?fe)] @ es @ [(?n - 1, ?co), (?n, ?po)]"
    by (subst m) (rule items_module.select_convs)
  have cid: "item_id (coin (load_items COLORS_PLAIN)) = ?n - 1"
    by (subst m) (simp only: items_module.select_convs item.select_convs)
  from assms(1) have "(k, it) \<in> set (registry (load_items COLORS_PLAIN))"
    by (rule map_of_SomeD)
  then have "(k, it) \<in> set [(1, ?pc), (2, ?fe)] \<union> set es \<union> set [(?n - 1, ?co), (?n, ?po)]"
    unfolding reg set_append by blast
  then consider "it = ?pc" | "it = ?fe" | "(k, it) \<in> set es" | "it = ?co" | "it = ?po"
    by fastforce
  then show ?thesis
  proof cases
    case 1
    then have "\<not> for_sale it" by (simp only: item.select_convs) simp
    with assms(2) show ?thesis by contradiction
  next
    case 2
    then have "item_id it = 2" by (simp only: item.select_convs)
    then show ?thesis unfolding cid by simp
  next
    case 3
    then have "\<not> for_sale it" using nfs unfolding list_all_iff by fastforce
    with assms(2) show ?thesis by contradiction
  next
    case 4
    then have "\<not> for_sale it" by (simp only: item.select_convs) simp
    with assms(2) show ?thesis by contradiction
  next
    case 5
    then have "item_id it = ?n" by (simp only: item.select_convs)
    then show ?thesis unfolding cid by simp
  qed
qed

lemma affirmative_nonempty:
  "py_lower (py_strip q) \<in> {''y'', ''yes''} \<Longrightarrow> q \<noteq> []"
  by (auto simp: py_lower_def py_strip_def)

text \<open>
  Claim C1. A purchase of a registered, for-sale item \<open>it\<close> with an affirmative query:
  \<open>remove_item(coin, quantity=price)\<close> succeeds exactly when the buyer holds at least
  the price in coins. If it fails the response is the error "Insufficient funds",
  \<open>add_item\<close> is not called and no quantity changes; if it succeeds the buyer's coins
  drop by exactly the price, the item's quantity rises by exactly one and nothing else
  changes.
\<close>

theorem store_purchase_funds:
  assumes "map_of (registry (load_items COLORS_PLAIN)) (int item_id') = Some it"
    and "for_sale it"
    and "py_lower (py_strip (query request)) \<in> {''y'', ''yes''}"
  shows "let items = load_items COLORS_PLAIN;
             u = request.user request;
             c = item_id (coin items);
             (r, w') = store_purchase items item_id' request w
         in fst (remove_item u (coin items) (price it) w) = (price it \<le> quantity w u c)
          \<and> (if fst (remove_item u (coin items) (price it) w)
              then r = Response REDIRECT_TEMPORARY ''/app/store'' No_body
                 \<and> calls w' = calls w @ [Remove_item u c (price it), Add_item u (item_id it) 1]
                 \<and> quantity w' = (quantity w)(u := (quantity w u)
                      (c := quantity w u c - price it, item_id it := quantity w u (item_id it) + 1))
                 \<and> quantity w' u c = quantity w u c - price it
                 \<and> quantity w' u (item_id it) = quantity w u (item_id it) + 1
              else r = Response BAD_REQUEST ''Insufficient funds'' No_body
                 \<and> calls w' = calls w @ [Remove_item u c (price it)]
                 \<and> quantity w' = quantity w)"
proof -
  let ?items = "load_items COLORS_PLAIN"
  let ?u = "request.user request"
  let ?c = "item_id (coin ?items)"
  have ne: "item_id it \<noteq> ?c"
    using assms(1,2) by (rule for_sale_not_coin)
  have q: "query request \<noteq> []" using assms(3) by (rule affirmative_nonempty)
  have aff: "py_lower (py_strip (query request)) \<in> set [''y'', ''yes'']"
    using assms(3) by simp
  have sp: "store_purchase ?items item_id' request w =
      (case remove_item ?u (coin ?items) (price it) w of
         (True, w1) \<Rightarrow> (Response REDIRECT_TEMPORARY ''/app/store'' No_body, add_item ?u it 1 w1)
       | (False, w1) \<Rightarrow> (Response BAD_REQUEST ''Insufficient funds'' No_body, w1))"
    unfolding store_purchase_def using assms(1,2) q aff by simp
  show ?thesis
  proof (cases "price it \<le> quantity w ?u ?c")
    case True
    let ?w1 = "w\<lparr>quantity := (quantity w)(?u := (quantity w ?u)(?c := quantity w ?u ?c - price it)),
                  calls := calls w @ [Remove_item ?u ?c (price it)]\<rparr>"
    have rm: "remove_item ?u (coin ?items) (price it) w = (True, ?w1)"
      using True by (simp add: remove_item_def)
    have res: "store_purchase ?items item_id' request w =
        (Response REDIRECT_TEMPORARY ''/app/store'' No_body, add_item ?u it 1 ?w1)"
      unfolding sp rm by simp
    have c1: "calls (add_item ?u it 1 ?w1) = calls w @ [Remove_item ?u ?c (price it), Add_item ?u (item_id it) 1]"
      by (simp add: add_item_def)
    have c2: "quantity (add_item ?u it 1 ?w1) = (quantity w)(?u := (quantity w ?u)
                      (?c := quantity w ?u ?c - price it, item_id it := quantity w ?u (item_id it) + 1))"
      using ne by (simp add: add_item_def)
    have c3: "quantity (add_item ?u it 1 ?w1) ?u ?c = quantity w ?u ?c - price it"
      unfolding c2 using ne by simp
    have c4: "quantity (add_item ?u it 1 ?w1) ?u (item_id it) = quantity w ?u (item_id it) + 1"
      unfolding c2 by simp
    show ?thesis
      unfolding Let_def res prod.case rm fst_conv using True c1 c2 c3 c4 by simp
  next
    case False
    let ?w1 = "w\<lparr>calls := calls w @ [Remove_item ?u ?c (price it)]\<rparr>"
    have rm: "remove_item ?u (coin ?items) (price it) w = (False, ?w1)"
      using False by (simp add: remove_item_def)
    have res: "store_purchase ?items item_id' request w =
        (Response BAD_REQUEST ''Insufficient funds'' No_body, ?w1)"
      unfolding sp rm by simp
    show ?thesis
      unfolding Let_def res prod.case rm fst_conv using False by simp
  qed
qed

lemma strip_lower_Yes: "py_lower (py_strip '' Yes'') = ''yes''"
  by code_simp

theorem store_purchase_funds_witness:
  "map_of (registry (load_items [''red''])) (int 5)
      = Some \<lparr>item_id = 5, price = 20, item.name = ''postcard'', for_sale = True\<rparr>
   \<and> for_sale \<lparr>item_id = 5, price = 20, item.name = ''postcard'', for_sale = True\<rparr>
   \<and> py_lower (py_strip (query (blank_request\<lparr>query := '' Yes'', request.user := ''u1''\<rparr>))) \<in> {''y'', ''yes''}
   \<and> (case store_purchase (load_items [''red'']) 5
          (blank_request\<lparr>query := '' Yes'', request.user := ''u1''\<rparr>)
          (blank_world\<lparr>quantity := (\<lambda>_ _. 0)(''u1'' := (\<lambda>_. 0)(4 := 25))\<rparr>) of
        (r, w') \<Rightarrow> r = Response REDIRECT_TEMPORARY ''/app/store'' No_body
                 \<and> quantity w' ''u1'' 4 = 5 \<and> quantity w' ''u1'' 5 = 1)"
proof -
  let ?po = "\<lparr>item_id = 5, price = 20, item.name = ''postcard'', for_sale = True\<rparr>"
  let ?req = "blank_request\<lparr>query := '' Yes'', request.user := ''u1''\<rparr>"
  let ?w = "blank_world\<lparr>quantity := (\<lambda>_ _. 0)(''u1'' := (\<lambda>_. 0)(4 := 25))\<rparr>"
  have h1: "map_of (registry (load_items [''red''])) (int 5) = Some ?po"
    by (simp add: load_items_red)
  have h2: "for_sale ?po" by simp
  have h3: "py_lower (py_strip (query ?req)) \<in> {''y'', ''yes''}"
    by (simp add: strip_lower_Yes)
  from store_purchase_funds[OF h1 h2 h3, of ?w]
  have "case store_purchase (load_items [''red'']) 5 ?req ?w of
        (r, w') \<Rightarrow> r = Response REDIRECT_TEMPORARY ''/app/store'' No_body
                 \<and> quantity w' ''u1'' 4 = 5 \<and> quantity w' ''u1'' 5 = 1"
    by (simp add: load_items_red Let_def remove_item_def split: prod.splits if_splits)
  with h1 h2 h3 show ?thesis by blast
qed

section \<open>The plant's name\<close>

text \<open>
  Claim C7. With an empty query the name view answers with the input prompt and changes
  nothing. With a non-empty query it stores exactly the first 40 characters of the query as
  the plant's name, so the stored name has at most 40 characters, and no other attribute
  of the plant changes.
\<close>

theorem name_sets_first_40:
  "let u = request.user request; (r, w') = name request w in
     if query request = []
     then r = Response INPUT ''Enter a new nickname for your plant:'' No_body \<and> w' = w
     else r = Response REDIRECT_TEMPORARY ''/app/plant'' No_body
        \<and> plant.name (plant_of w' u) = take 40 (query request)
        \<and> length (plant.name (plant_of w' u)) \<le> 40
        \<and> plant_of w' = (plant_of w)(u := (plant_of w u)\<lparr>plant.name := take 40 (query request)\<rparr>)"
  by (simp add: name_def Let_def session_set_def)

theorem name_sets_first_40_witness:
  "plant.name (plant_of (snd (name (blank_request\<lparr>query := replicate 50 CHR ''a''\<rparr>) blank_world)) [])
     = replicate 40 CHR ''a''
   \<and> name blank_request blank_world
     = (Response INPUT ''Enter a new nickname for your plant:'' No_body, blank_world)"
  using name_sets_first_40[of "blank_request\<lparr>query := replicate 50 CHR ''a''\<rparr>" blank_world]
        name_sets_first_40[of blank_request blank_world]
  by (simp add: Let_def blank_request_def split: prod.splits)

section \<open>Harvest\<close>

text \<open>
  Claim C4, as amended. \<open>plant.harvest()\<close> is called exactly when the plant is dead or
  at stage 5, the request path ends with \<open>/confirm\<close> and the stripped query is
  "Goodbye " followed by the plant's name. In every other case nothing changes: a plant
  that is neither dead nor at stage 5 gives \<open>BAD_REQUEST\<close>; on a path that does not end
  with \<open>/confirm\<close> the harvest page is rendered whatever the query; on the confirm path
  any other non-empty query redirects back and an empty query gives the input prompt.
\<close>

theorem harvest_confirmation:
  "let u = request.user request; p = plant_of w u; (r, w') = harvest M request w in
     if (dead p \<or> stage p = 5) \<and> endswith (path request) ''/confirm''
        \<and> py_strip (query request) = ''Goodbye '' @ plant.name p
     then r = Response REDIRECT_TEMPORARY ''/app/epilog/1'' No_body
        \<and> w' = call_harvest M u w \<and> calls w' = calls w @ [Harvest u]
     else w' = w
        \<and> r = (if \<not> (dead p \<or> stage p = 5)
                 then Response BAD_REQUEST ''You shouldn't be here!'' No_body
                 else if \<not> endswith (path request) ''/confirm''
                 then Response SUCCESS ''text/gemini'' (Plant_harvest_gmi p)
                 else if query request \<noteq> []
                 then Response REDIRECT_TEMPORARY ''/app/plant/harvest'' No_body
                 else Response INPUT (''Type '' @ [CHR 0x22] @ ''Goodbye '' @ plant.name p
                        @ [CHR 0x22] @ '' to send off your plant.'') No_body)"
  by (simp add: harvest_def Let_def call_harvest_def)

text \<open>
  The claim as stated has no condition on the path: on the route \<open>/app/plant/harvest\<close> a
  dead plant and the exact confirmation query give the harvest page, with no call of
  \<open>plant.harvest()\<close>.
\<close>

theorem harvest_needs_confirm_route:
  "dead (plant_of fern_world ''u1'')
   \<and> py_strip ''Goodbye fern'' = ''Goodbye '' @ plant.name (plant_of fern_world ''u1'')
   \<and> harvest drought_models
        (blank_request\<lparr>path := ''/app/plant/harvest'', query := ''Goodbye fern'', request.user := ''u1''\<rparr>)
        fern_world
     = (Response SUCCESS ''text/gemini'' (Plant_harvest_gmi (plant_of fern_world ''u1'')), fern_world)
   \<and> calls (snd (harvest drought_models
        (blank_request\<lparr>path := ''/app/plant/harvest'', query := ''Goodbye fern'', request.user := ''u1''\<rparr>)
        fern_world)) = []"
  by (simp add: harvest_def Let_def fern_world_def blank_world_def blank_plant_def blank_request_def
      endswith_def py_strip_def py_isspace_def)

theorem harvest_confirmation_witness:
  "harvest drought_models
        (blank_request\<lparr>path := ''/app/plant/harvest/confirm'', query := ''Goodbye fern '', request.user := ''u1''\<rparr>)
        fern_world
     = (Response REDIRECT_TEMPORARY ''/app/epilog/1'' No_body,
        call_harvest drought_models ''u1'' fern_world)"
proof -
  let ?req = "blank_request\<lparr>path := ''/app/plant/harvest/confirm'', query := ''Goodbye fern '', request.user := ''u1''\<rparr>"
  have s: "py_strip ''Goodbye fern '' = ''Goodbye fern''" by code_simp
  have e: "endswith ''/app/plant/harvest/confirm'' ''/confirm''" by code_simp
  show ?thesis
    using harvest_confirmation[of ?req fern_world drought_models] s e
    by (simp add: Let_def blank_request_def fern_world_def blank_world_def blank_plant_def split: prod.splits)
qed

section \<open>Searching for petals\<close>

text \<open>
  Claim C3, at a failing input. Bob's plant is stored alive at stage 4 and is dead once
  refreshed. Alice's \<open>visit_plant_search\<close> on it is not rejected: it redirects,
  \<open>pick_petal\<close> is called and alice's quantity of the petal rises by one. The view of
  one's own plant, \<open>search\<close> behind the wrapper, rejects the same plant with
  \<open>BAD_REQUEST\<close>, calls no \<open>pick_petal\<close> and leaves the quantities as they were.
\<close>

theorem visit_plant_search_picks_petal_of_dead_plant:
  "users garden ''u2'' = Some ''bob''
   \<and> dead (Plant_refresh drought_models (plant_of garden ''u2''))
   \<and> (case visit_plant_search drought_models ''u2'' (blank_request\<lparr>request.user := ''u1''\<rparr>) garden of
        (r, w') \<Rightarrow> r = Response REDIRECT_TEMPORARY ''/app/visit/u2'' No_body
          \<and> calls w' = [Refresh ''u2'', Pick_petal ''u2'' (Some ''u1''), Save ''u2'']
          \<and> dead (plant_of w' ''u2'')
          \<and> quantity w' ''u1'' 3 = quantity garden ''u1'' 3 + 1)
   \<and> (case authenticate drought_models (search drought_models)
            (blank_request\<lparr>path := ''/app/plant/search'', tls_client_hash := ''cert1''\<rparr>)
            (garden\<lparr>plant_of := (plant_of garden)(''u1'' := plant_of garden ''u2'')\<rparr>) of
        (r, w') \<Rightarrow> r = Response BAD_REQUEST ''You shouldn't be here!'' No_body
          \<and> calls w' = [Refresh ''u1'', Save ''u1'']
          \<and> quantity w' = quantity garden)"
  by (simp add: authenticate_def visit_plant_search_def search_def garden_def blank_world_def
      blank_plant_def blank_request_def drought_models_def call_refresh_def call_save_def
      call_pick_petal_def session_set_def Let_def)

section \<open>Refreshing before the checks\<close>

text \<open>
  Claim C2, at a failing input. Bob's plant is stored alive at stage 4 and \<open>refresh\<close>
  finds it dead. Alice's request to \<open>visit_plant_search\<close> passes the check on the stored
  plant, and only then is the plant refreshed: \<open>pick_petal\<close> runs on the dead plant and
  alice receives a petal. The view of one's own plant, \<open>search\<close>, on the same plant is
  checked after the wrapper's \<open>refresh\<close> and answers \<open>BAD_REQUEST\<close>.
\<close>

theorem visit_plant_search_checks_before_refresh:
  "\<not> dead (plant_of garden ''u2'') \<and> stage (plant_of garden ''u2'') = 4
   \<and> dead (Plant_refresh drought_models (plant_of garden ''u2''))
   \<and> (case authenticate drought_models (visit_plant_search drought_models ''u2'')
            (blank_request\<lparr>path := ''/app/visit/u2/search'', tls_client_hash := ''cert1''\<rparr>) garden of
        (r, w') \<Rightarrow> r = Response REDIRECT_TEMPORARY ''/app/visit/u2'' No_body
          \<and> calls w' = [Refresh ''u1'', Refresh ''u2'', Pick_petal ''u2'' (Some ''u1''), Save ''u2'', Save ''u1'']
          \<and> dead (plant_of w' ''u2'')
          \<and> quantity w' ''u1'' 3 = quantity garden ''u1'' 3 + 1)
   \<and> (case authenticate drought_models (search drought_models)
            (blank_request\<lparr>path := ''/app/plant/search'', tls_client_hash := ''cert1''\<rparr>)
            (garden\<lparr>plant_of := (plant_of garden)(''u1'' := plant_of garden ''u2'')\<rparr>) of
        (r, w') \<Rightarrow> r = Response BAD_REQUEST ''You shouldn't be here!'' No_body
          \<and> calls w' = [Refresh ''u1'', Save ''u1''])"
  by (simp add: authenticate_def visit_plant_search_def search_def garden_def blank_world_def
      blank_plant_def blank_request_def drought_models_def call_refresh_def call_save_def
      call_pick_petal_def session_set_def Let_def)

section \<open>The mailbox\<close>

lemma mailbox_view_hit:
  assumes "map_of (inbox w) (int mid) = Some m" and "user_to m = request.user request"
  shows "mailbox_view mid request w =
     (Response SUCCESS ''text/gemini'' (Mailbox_view_gmi (m\<lparr>is_seen := True\<rparr>)),
      Inbox_save (int mid) (m\<lparr>is_seen := True\<rparr>) w)"
  using assms by (simp add: mailbox_view_def Inbox_get_or_none_def Let_def)

lemma mailbox_view_miss:
  assumes "map_of (inbox w) (int mid) = None
           \<or> (\<exists>m. map_of (inbox w) (int mid) = Some m \<and> user_to m \<noteq> request.user request)"
  shows "mailbox_view mid request w = (Response BAD_REQUEST ''You shouldn't be here!'' No_body, w)"
  using assms by (auto simp: mailbox_view_def Inbox_get_or_none_def)

text \<open>
  Claim C10. \<open>mailbox_view\<close> of message \<open>mid\<close> for the requesting user: if the inbox
  has no row with that id, or the row is addressed to someone else, the answer is
  \<open>BAD_REQUEST\<close> and the state is unchanged. Otherwise the row is addressed to the
  requester, it is the row shown, it is stored back with \<open>is_seen\<close> set and no row is
  added or removed. In every case each row addressed to another user is left as it was.
\<close>

theorem mailbox_view_own_mail:
  "let u = request.user request; (r, w') = mailbox_view mid request w in
     (case map_of (inbox w) (int mid) of
        None \<Rightarrow> r = Response BAD_REQUEST ''You shouldn't be here!'' No_body \<and> w' = w
      | Some m \<Rightarrow>
          if user_to m = u
          then r = Response SUCCESS ''text/gemini'' (Mailbox_view_gmi (m\<lparr>is_seen := True\<rparr>))
             \<and> map_of (inbox w') = (map_of (inbox w))(int mid \<mapsto> m\<lparr>is_seen := True\<rparr>)
             \<and> map fst (inbox w') = map fst (inbox w)
          else r = Response BAD_REQUEST ''You shouldn't be here!'' No_body \<and> w' = w)
   \<and> (\<forall>k m. map_of (inbox w) k = Some m \<and> user_to m \<noteq> u \<longrightarrow> map_of (inbox w') k = Some m)"
proof (cases "map_of (inbox w) (int mid)")
  case None
  then have "mailbox_view mid request w = (Response BAD_REQUEST ''You shouldn't be here!'' No_body, w)"
    by (simp add: mailbox_view_miss)
  then show ?thesis using None by (simp add: Let_def)
next
  case (Some m)
  show ?thesis
  proof (cases "user_to m = request.user request")
    case True
    have res: "mailbox_view mid request w =
       (Response SUCCESS ''text/gemini'' (Mailbox_view_gmi (m\<lparr>is_seen := True\<rparr>)),
        Inbox_save (int mid) (m\<lparr>is_seen := True\<rparr>) w)"
      using Some True by (rule mailbox_view_hit)
    have i: "inbox (Inbox_save (int mid) (m\<lparr>is_seen := True\<rparr>) w)
               = AList.update (int mid) (m\<lparr>is_seen := True\<rparr>) (inbox w)"
      by (simp add: Inbox_save_def)
    have mem: "int mid \<in> fst ` set (inbox w)"
      using map_of_SomeD[OF Some] by force
    have k: "map fst (AList.update (int mid) (m\<lparr>is_seen := True\<rparr>) (inbox w)) = map fst (inbox w)"
      using mem by (simp add: update_keys)
    have others: "\<forall>k m'. map_of (inbox w) k = Some m' \<and> user_to m' \<noteq> request.user request
        \<longrightarrow> map_of (AList.update (int mid) (m\<lparr>is_seen := True\<rparr>) (inbox w)) k = Some m'"
      using Some True by (auto simp: update_conv')
    show ?thesis
      unfolding Let_def res prod.case i using Some True k others by (simp add: update_conv')
  next
    case False
    then have "mailbox_view mid request w = (Response BAD_REQUEST ''You shouldn't be here!'' No_body, w)"
      using Some by (simp add: mailbox_view_miss)
    then show ?thesis using Some False by (simp add: Let_def)
  qed
qed

theorem mailbox_view_own_mail_witness:
  "map_of (inbox mail_world) 2
     = Some \<lparr>user_from = ''u1'', user_to = ''u2'', subject = ''re'',
             inbox_row.body = ''Hello world!'', is_seen = False\<rparr>
   \<and> user_to \<lparr>user_from = ''u1'', user_to = ''u2'', subject = ''re'',
             inbox_row.body = ''Hello world!'', is_seen = False\<rparr> \<noteq> ''u1''
   \<and> map_of (inbox (snd (mailbox_view 1 (blank_request\<lparr>request.user := ''u1''\<rparr>) mail_world))) 2
     = Some \<lparr>user_from = ''u1'', user_to = ''u2'', subject = ''re'',
             inbox_row.body = ''Hello world!'', is_seen = False\<rparr>
   \<and> map_of (inbox (snd (mailbox_view 1 (blank_request\<lparr>request.user := ''u1''\<rparr>) mail_world))) 1
     = Some \<lparr>user_from = ''u2'', user_to = ''u1'', subject = ''hi'',
             inbox_row.body = ''Hello world!'', is_seen = True\<rparr>
   \<and> mailbox_view 2 (blank_request\<lparr>request.user := ''u1''\<rparr>) mail_world
     = (Response BAD_REQUEST ''You shouldn't be here!'' No_body, mail_world)"
proof -
  let ?req = "blank_request\<lparr>request.user := ''u1''\<rparr>"
  let ?m1 = "\<lparr>user_from = ''u2'', user_to = ''u1'', subject = ''hi'',
             inbox_row.body = ''Hello world!'', is_seen = False\<rparr>"
  let ?m2 = "\<lparr>user_from = ''u1'', user_to = ''u2'', subject = ''re'',
             inbox_row.body = ''Hello world!'', is_seen = False\<rparr>"
  have i: "inbox mail_world = [(1, ?m1), (2, ?m2)]"
    by (simp add: mail_world_def)
  have h1: "map_of (inbox mail_world) 1 = Some ?m1" and h2: "map_of (inbox mail_world) 2 = Some ?m2"
    unfolding i by simp_all
  have h3: "user_to ?m2 \<noteq> ''u1''" by simp
  have u: "request.user ?req = ''u1''" by simp
  obtain r w' where v1: "mailbox_view 1 ?req mail_world = (r, w')" by (cases "mailbox_view 1 ?req mail_world")
  from mailbox_view_own_mail[of ?req 1 mail_world]
  have a: "map_of (inbox w') = (map_of (inbox mail_world))(1 \<mapsto> ?m1\<lparr>is_seen := True\<rparr>)"
    and b: "\<forall>k m. map_of (inbox mail_world) k = Some m \<and> user_to m \<noteq> ''u1'' \<longrightarrow> map_of (inbox w') k = Some m"
    unfolding Let_def v1 prod.case u using h1 by simp_all
  from b h2 h3 have c: "map_of (inbox w') 2 = Some ?m2" by blast
  from a have d: "map_of (inbox w') 1 = Some (?m1\<lparr>is_seen := True\<rparr>)" by simp
  obtain r2 w2 where v2: "mailbox_view 2 ?req mail_world = (r2, w2)" by (cases "mailbox_view 2 ?req mail_world")
  from mailbox_view_own_mail[of ?req 2 mail_world]
  have e: "r2 = Response BAD_REQUEST ''You shouldn't be here!'' No_body \<and> w2 = mail_world"
    unfolding Let_def v2 prod.case u using h2 by simp
  show ?thesis using h2 h3 c d e unfolding v1 v2 by simp
qed

section \<open>Postcards\<close>

lemma fold_max_ge: "\<forall>x \<in> set xs. x \<le> fold max xs (a::int)"
proof (induction xs arbitrary: a)
  case Nil then show ?case by simp
next
  case (Cons y ys)
  have "a \<le> fold max ys a" for a :: int
  proof (induction ys arbitrary: a)
    case Nil then show ?case by simp
  next
    case (Cons z zs)
    have "a \<le> max z a" by simp
    also have "\<dots> \<le> fold max zs (max z a)" by (rule Cons.IH)
    finally show ?case by simp
  qed
  then have "y \<le> fold max ys (max y a)" by (meson max.cobounded1 order_trans)
  with Cons.IH[of "max y a"] show ?case by simp
qed

lemma Inbox_create_fresh: "fold max (map fst tbl) 0 + 1 \<notin> fst ` set (tbl :: (int \<times> 'a) list)"
proof
  assume "fold max (map fst tbl) 0 + 1 \<in> fst ` set tbl"
  then have "fold max (map fst tbl) 0 + 1 \<in> set (map fst tbl)" by simp
  with fold_max_ge[of "map fst tbl" 0] have "fold max (map fst tbl) 0 + 1 \<le> fold max (map fst tbl) 0"
    by blast
  then show False by simp
qed

lemma postcard_send_cases:
  assumes "users w t = Some username"
  shows "let u = request.user request; pc = item_id (postcard items);
             s = session_of w u ''postcard_subject'';
             (r, w') = visit_plant_postcard_send items t request w
         in if s = None \<or> s = Some []
            then r = Response BAD_REQUEST ''Postcard subject cannot be blank.'' No_body \<and> w' = w
            else if quantity w u pc < 1
            then r = Response BAD_REQUEST ''You do not have any postcards in your inventory.'' No_body
               \<and> inbox w' = inbox w \<and> session_of w' = session_of w \<and> quantity w' = quantity w
            else r = Response REDIRECT_TEMPORARY (''/app/visit/'' @ t) No_body
               \<and> (\<exists>k. k \<notin> fst ` set (inbox w)
                     \<and> inbox w' = inbox w @ [(k, \<lparr>user_from = u, user_to = t, subject = the s,
                                                   inbox_row.body = ''Hello world!'', is_seen = False\<rparr>)])
               \<and> quantity w' = (quantity w)(u := (quantity w u)(pc := quantity w u pc - 1))
               \<and> session_of w' u ''postcard_subject'' = None"
proof -
  let ?u = "request.user request"
  let ?pc = "item_id (postcard items)"
  let ?s = "session_of w ?u ''postcard_subject''"
  show ?thesis
  proof (cases "?s = None \<or> ?s = Some []")
    case True
    then have "visit_plant_postcard_send items t request w
        = (Response BAD_REQUEST ''Postcard subject cannot be blank.'' No_body, w)"
      unfolding visit_plant_postcard_send_def Let_def assms option.case by auto
    then show ?thesis using True by (simp add: Let_def)
  next
    case False
    then obtain sub where sub: "?s = Some sub" "sub \<noteq> []" by auto
    have nb: "\<not> (?s \<in> {None, Some []})" using False by simp
    show ?thesis
    proof (cases "quantity w ?u ?pc < 1")
      case True
      let ?w1 = "w\<lparr>calls := calls w @ [Remove_item ?u ?pc 1]\<rparr>"
      have rm: "remove_item ?u (postcard items) 1 w = (False, ?w1)"
        using True by (simp add: remove_item_def)
      have res: "visit_plant_postcard_send items t request w
        = (Response BAD_REQUEST ''You do not have any postcards in your inventory.'' No_body, ?w1)"
        unfolding visit_plant_postcard_send_def Let_def assms option.case rm using nb by simp
      show ?thesis unfolding Let_def res prod.case using True False by simp
    next
      case enough: False
      let ?w1 = "w\<lparr>quantity := (quantity w)(?u := (quantity w ?u)(?pc := quantity w ?u ?pc - 1)),
                    calls := calls w @ [Remove_item ?u ?pc 1]\<rparr>"
      let ?w2 = "?w1\<lparr>session_of := (session_of ?w1)(?u := (session_of ?w1 ?u)(''postcard_subject'' := None))\<rparr>"
      have rm: "remove_item ?u (postcard items) 1 w = (True, ?w1)"
        using enough by (simp add: remove_item_def)
      have pop: "session_pop ?u ''postcard_subject'' ?w1 = (Some sub, ?w2)"
        using sub by (simp add: session_pop_def)
      let ?w4 = "session_set ?u ''alert'' (''Your postcard to '' @ username @ '' has been mailed!'')
                   (Inbox_create ?u t sub ''Hello world!'' ?w2)"
      have res: "visit_plant_postcard_send items t request w
        = (Response REDIRECT_TEMPORARY (''/app/visit/'' @ t) No_body, ?w4)"
        unfolding visit_plant_postcard_send_def Let_def assms option.case rm prod.case bool.case pop
        using nb by simp
      have i: "inbox ?w4 = inbox w @ [(fold max (map fst (inbox w)) 0 + 1,
                 \<lparr>user_from = ?u, user_to = t, subject = sub,
                  inbox_row.body = ''Hello world!'', is_seen = False\<rparr>)]"
        by (simp add: session_set_def Inbox_create_def)
      have q: "quantity ?w4 = (quantity w)(?u := (quantity w ?u)(?pc := quantity w ?u ?pc - 1))"
        by (simp add: session_set_def Inbox_create_def)
      have s: "session_of ?w4 ?u ''postcard_subject'' = None"
        by (simp add: session_set_def Inbox_create_def)
      have ex: "\<exists>k. k \<notin> fst ` set (inbox w)
                     \<and> inbox ?w4 = inbox w @ [(k, \<lparr>user_from = ?u, user_to = t, subject = the ?s,
                                                   inbox_row.body = ''Hello world!'', is_seen = False\<rparr>)]"
        using i Inbox_create_fresh[of "inbox w"] sub by auto
      show ?thesis unfolding Let_def res prod.case using enough False ex q s by simp
    qed
  qed
qed

lemma postcard_subject_cases:
  assumes "users w t = Some username"
  shows "let u = request.user request;
             (r, w') = visit_plant_postcard_subject t request w
         in if query request = []
            then r = Response INPUT ''Enter the message subject (max 128 chars):'' No_body \<and> w' = w
            else if length (query request) > 128
            then r = Response BAD_REQUEST ''Subject exceeds maximum length'' No_body \<and> w' = w
            else r = Response REDIRECT_TEMPORARY (''/app/visit/'' @ t @ ''/postcard'') No_body
               \<and> w' = session_set u ''postcard_subject'' (query request) w
               \<and> session_of w' u ''postcard_subject'' = Some (query request)
               \<and> length (query request) \<le> 128"
  unfolding visit_plant_postcard_subject_def Let_def assms option.case
  by (simp add: session_set_def)

text \<open>
  Claim C6. Sending a postcard to an existing user: with no subject in the session (or
  an empty one) the view answers \<open>BAD_REQUEST\<close> and the state is unchanged; with a
  subject but no postcard in the inventory it answers \<open>BAD_REQUEST\<close>, no message is
  created, and the subject and every quantity stay as they were; otherwise exactly one
  row is appended to the inbox under a fresh key, from the actor to the target with the
  drafted subject, the actor's postcards drop by exactly one and the subject is taken
  out of the session. The subject view stores a subject only when it is non-empty and
  has at most 128 characters, and rejects a longer one.
\<close>

theorem postcard_delivery:
  assumes "users w t = Some username"
  shows "(let u = request.user request; pc = item_id (postcard items);
             s = session_of w u ''postcard_subject'';
             (r, w') = visit_plant_postcard_send items t request w
         in if s = None \<or> s = Some []
            then r = Response BAD_REQUEST ''Postcard subject cannot be blank.'' No_body \<and> w' = w
            else if quantity w u pc < 1
            then r = Response BAD_REQUEST ''You do not have any postcards in your inventory.'' No_body
               \<and> inbox w' = inbox w \<and> session_of w' = session_of w \<and> quantity w' = quantity w
            else r = Response REDIRECT_TEMPORARY (''/app/visit/'' @ t) No_body
               \<and> (\<exists>k. k \<notin> fst ` set (inbox w)
                     \<and> inbox w' = inbox w @ [(k, \<lparr>user_from = u, user_to = t, subject = the s,
                                                   inbox_row.body = ''Hello world!'', is_seen = False\<rparr>)])
               \<and> quantity w' = (quantity w)(u := (quantity w u)(pc := quantity w u pc - 1))
               \<and> session_of w' u ''postcard_subject'' = None)
     \<and> (let u = request.user request;
             (r, w') = visit_plant_postcard_subject t request w
         in if query request = []
            then r = Response INPUT ''Enter the message subject (max 128 chars):'' No_body \<and> w' = w
            else if length (query request) > 128
            then r = Response BAD_REQUEST ''Subject exceeds maximum length'' No_body \<and> w' = w
            else r = Response REDIRECT_TEMPORARY (''/app/visit/'' @ t @ ''/postcard'') No_body
               \<and> w' = session_set u ''postcard_subject'' (query request) w
               \<and> session_of w' u ''postcard_subject'' = Some (query request)
               \<and> length (query request) \<le> 128)"
  using postcard_send_cases[OF assms, of request items] postcard_subject_cases[OF assms, of request]
  by (rule conjI)

theorem postcard_delivery_witness:
  "users postcard_world ''u2'' = Some ''bob''
   \<and> (case visit_plant_postcard_send (load_items [''red'']) ''u2''
             (blank_request\<lparr>request.user := ''u1''\<rparr>) postcard_world of
        (r, w') \<Rightarrow> r = Response REDIRECT_TEMPORARY ''/app/visit/u2'' No_body
          \<and> map snd (inbox w') = [\<lparr>user_from = ''u1'', user_to = ''u2'', subject = ''hello'',
                                    inbox_row.body = ''Hello world!'', is_seen = False\<rparr>]
          \<and> quantity w' ''u1'' 5 = 0
          \<and> session_of w' ''u1'' ''postcard_subject'' = None)"
proof -
  let ?req = "blank_request\<lparr>request.user := ''u1''\<rparr>"
  have h: "users postcard_world ''u2'' = Some ''bob''"
    by (simp add: postcard_world_def garden_def)
  have u: "request.user ?req = ''u1''" by simp
  have pc: "item_id (postcard (load_items [''red''])) = 5" by (simp add: load_items_red)
  have s: "session_of postcard_world ''u1'' ''postcard_subject'' = Some ''hello''"
    by (simp add: postcard_world_def)
  have q: "quantity postcard_world ''u1'' 5 = 1" by (simp add: postcard_world_def)
  have i: "inbox postcard_world = []" by (simp add: postcard_world_def garden_def blank_world_def)
  obtain r w' where v: "visit_plant_postcard_send (load_items [''red'']) ''u2'' ?req postcard_world = (r, w')"
    by (cases "visit_plant_postcard_send (load_items [''red'']) ''u2'' ?req postcard_world")
  from postcard_delivery[OF h, of ?req "load_items [''red'']", THEN conjunct1]
  have "r = Response REDIRECT_TEMPORARY ''/app/visit/u2'' No_body
          \<and> map snd (inbox w') = [\<lparr>user_from = ''u1'', user_to = ''u2'', subject = ''hello'',
                                    inbox_row.body = ''Hello world!'', is_seen = False\<rparr>]
          \<and> quantity w' ''u1'' 5 = 0
          \<and> session_of w' ''u1'' ''postcard_subject'' = None"
    unfolding Let_def v prod.case u pc s q i by auto
  then show ?thesis using h unfolding v by simp
qed

section \<open>The list of plants to visit\<close>

text \<open>
  Claim C5, as amended. The list the visit view hands to its template holds exactly the
  rows of \<open>Plant.all_active()\<close> with a positive score that were watered no longer than
  8 days before the current time, in order of descending score; the view changes nothing.
  The viewer's own plant is not taken out.
\<close>

theorem visit_lists_active_plants:
  "let (r, w') = visit now request w;
       keep = (\<lambda>p. score p > 0 \<and> watered_at p \<ge> now - timedelta_days 8)
   in w' = w
    \<and> (\<exists>plants. r = Response SUCCESS ''text/gemini'' (Visit_gmi plants)
          \<and> mset plants = filter_mset keep (mset (all_active w))
          \<and> sorted_wrt (\<lambda>p q. score p \<ge> score q) plants)"
proof -
  let ?keep = "\<lambda>p. score p > 0 \<and> watered_at p \<ge> now - timedelta_days 8"
  let ?ps = "order_by_score_desc (filter ?keep (all_active w))"
  have v: "visit now request w = (Response SUCCESS ''text/gemini'' (Visit_gmi ?ps), w)"
    by (simp add: visit_def Let_def)
  have m: "mset ?ps = filter_mset ?keep (mset (all_active w))"
    by (simp add: order_by_score_desc_def)
  have "sorted (map (\<lambda>p. - score p) ?ps)"
    by (simp add: order_by_score_desc_def)
  then have s: "sorted_wrt (\<lambda>p q. score p \<ge> score q) ?ps"
    by (simp add: sorted_map)
  from v m s show ?thesis by (simp add: Let_def)
qed

lemma visit_world_result:
  "visit 700000000000 (blank_request\<lparr>request.user := ''u1''\<rparr>) visit_world
     = (Response SUCCESS ''text/gemini''
          (Visit_gmi [blank_plant\<lparr>plant.user := ''u2'', score := 9, watered_at := 700000000000\<rparr>,
                      blank_plant\<lparr>plant.user := ''u1'', score := 5, watered_at := 8800000000\<rparr>]),
        visit_world)"
  by (simp add: visit_def Let_def visit_world_def order_by_score_desc_def timedelta_days_def
      blank_plant_def)

text \<open>
  The claim as stated excludes the viewer's own plant: alice's own plant, active, with
  a positive score and watered within the window, is in the list alice is shown.
\<close>

theorem visit_lists_own_plant:
  "visit 700000000000 (blank_request\<lparr>request.user := ''u1''\<rparr>) visit_world
     = (Response SUCCESS ''text/gemini''
          (Visit_gmi [blank_plant\<lparr>plant.user := ''u2'', score := 9, watered_at := 700000000000\<rparr>,
                      blank_plant\<lparr>plant.user := ''u1'', score := 5, watered_at := 8800000000\<rparr>]),
        visit_world)
   \<and> plant.user (blank_plant\<lparr>plant.user := ''u1'', score := 5, watered_at := 8800000000\<rparr>)
     = request.user (blank_request\<lparr>request.user := ''u1''\<rparr>)"
  using visit_world_result by simp

theorem visit_lists_active_plants_witness:
  "sorted_wrt (\<lambda>p q. score p \<ge> score q)
     [blank_plant\<lparr>plant.user := ''u2'', score := 9, watered_at := 700000000000\<rparr>,
      blank_plant\<lparr>plant.user := ''u1'', score := 5, watered_at := 8800000000\<rparr>]
   \<and> mset [blank_plant\<lparr>plant.user := ''u2'', score := 9, watered_at := 700000000000\<rparr>,
            blank_plant\<lparr>plant.user := ''u1'', score := 5, watered_at := 8800000000\<rparr>]
     = filter_mset (\<lambda>p. score p > 0 \<and> watered_at p \<ge> 700000000000 - timedelta_days 8)
         (mset (all_active visit_world))"
  using visit_lists_active_plants[of 700000000000 "blank_request\<lparr>request.user := ''u1''\<rparr>" visit_world]
  unfolding visit_world_result Let_def prod.case
  by auto

section \<open>Static files stay under the files directory\<close>


























end
